theory Spec2Isabelle
  imports Main "HOL-Library.Word"
begin

unbundle bit_operations_syntax

section \<open>Data model\<close>

text \<open>
  \<^verbatim>\<open>time.Duration\<close> is a signed 64-bit count of nanoseconds; \<^verbatim>\<open>time.Second\<close> is
  \<open>10^9\<close> of them. Comparisons of durations read the word as two's complement
  (\<open><s\<close>, \<open>sint\<close>).
\<close>

type_synonym Duration = "64 word"

definition Second :: Duration where
  "Second = 1000000000"

text \<open>
  \<^verbatim>\<open>configv1.LeaderElection\<close>, with the fields the package reads and writes
  (\<^verbatim>\<open>metav1.Duration\<close> wraps a \<^verbatim>\<open>time.Duration\<close>; the wrapper is elided).
\<close>

record LeaderElection =
  Disable :: bool
  Namespace :: string
  Name :: string
  LeaseDuration :: Duration
  RenewDeadline :: Duration
  RetryPeriod :: Duration

text \<open>
  Go's \<^verbatim>\<open>error\<close> values. \<^verbatim>\<open>Errorf\<close> carries the message of an error made by
  \<^verbatim>\<open>fmt.Errorf\<close>; a function that returns \<^verbatim>\<open>(T, error)\<close> is modelled with the sum
  \<open>error + T\<close>, \<open>Inl\<close> being the non-nil error.
\<close>

datatype error = Errorf string

section \<open>The library functions the package calls\<close>

subsection \<open>\<^verbatim>\<open>strings.TrimSpace\<close>\<close>

text \<open>
  A Go string is a sequence of bytes holding UTF-8. \<^verbatim>\<open>strings.TrimSpace\<close> removes every
  leading and every trailing rune with the Unicode White\_Space property. The runes are
  listed here by their UTF-8 encodings: U+0009 to U+000D, U+0020, U+0085, U+00A0, U+1680,
  U+2000 to U+200A, U+2028, U+2029, U+202F, U+205F and U+3000.
\<close>

definition spaceRunes :: "string list" where
  "spaceRunes =
    [[CHR 0x09], [CHR 0x0A], [CHR 0x0B], [CHR 0x0C], [CHR 0x0D], [CHR 0x20],
     [CHR 0xC2, CHR 0x85], [CHR 0xC2, CHR 0xA0],
     [CHR 0xE1, CHR 0x9A, CHR 0x80],
     [CHR 0xE2, CHR 0x80, CHR 0x80], [CHR 0xE2, CHR 0x80, CHR 0x81],
     [CHR 0xE2, CHR 0x80, CHR 0x82], [CHR 0xE2, CHR 0x80, CHR 0x83],
     [CHR 0xE2, CHR 0x80, CHR 0x84], [CHR 0xE2, CHR 0x80, CHR 0x85],
     [CHR 0xE2, CHR 0x80, CHR 0x86], [CHR 0xE2, CHR 0x80, CHR 0x87],
     [CHR 0xE2, CHR 0x80, CHR 0x88], [CHR 0xE2, CHR 0x80, CHR 0x89],
     [CHR 0xE2, CHR 0x80, CHR 0x8A],
     [CHR 0xE2, CHR 0x80, CHR 0xA8], [CHR 0xE2, CHR 0x80, CHR 0xA9],
     [CHR 0xE2, CHR 0x80, CHR 0xAF],
     [CHR 0xE2, CHR 0x81, CHR 0x9F],
     [CHR 0xE3, CHR 0x80, CHR 0x80]]"

text \<open>
  The width in bytes of the white-space rune that \<open>s\<close> starts with among the encodings
  \<open>ps\<close>, and 0 when it starts with none.
\<close>

definition runeWidth :: "string list \<Rightarrow> string \<Rightarrow> nat" where
  "runeWidth ps s =
    (case filter (\<lambda>p. p \<noteq> [] \<and> take (length p) s = p) ps of
       [] \<Rightarrow> 0
     | p # _ \<Rightarrow> length p)"

lemma runeWidth_le_length: "runeWidth ps s \<le> length s"
proof (cases "filter (\<lambda>p. p \<noteq> [] \<and> take (length p) s = p) ps")
  case Nil
  then show ?thesis by (simp add: runeWidth_def)
next
  case (Cons p qs)
  then have "p \<in> set (filter (\<lambda>p. p \<noteq> [] \<and> take (length p) s = p) ps)"
    by simp
  then have "take (length p) s = p" by simp
  then have "length p \<le> length s"
    by (metis length_take min.cobounded1)
  with Cons show ?thesis by (simp add: runeWidth_def)
qed

function trimRunes :: "string list \<Rightarrow> string \<Rightarrow> string" where
  "trimRunes ps s =
    (if runeWidth ps s = 0 then s else trimRunes ps (drop (runeWidth ps s) s))"
  by pat_completeness auto
termination
proof (relation "measure (\<lambda>(ps, s). length s)")
  show "wf (measure (\<lambda>(ps, s). length s))" by simp
next
  fix ps :: "string list" and s :: string
  assume "runeWidth ps s \<noteq> 0"
  moreover have "runeWidth ps s \<le> length s" by (rule runeWidth_le_length)
  ultimately show "((ps, drop (runeWidth ps s) s), (ps, s)) \<in> measure (\<lambda>(ps, s). length s)"
    by simp
qed

declare trimRunes.simps [simp del]

text \<open>
  Trimming on the right is trimming the reversed string by the reversed encodings:
  UTF-8 is self-synchronising, so the last rune of a string is a white-space rune
  exactly when the string ends with that rune's encoding.
\<close>

definition TrimSpace :: "string \<Rightarrow> string" where
  "TrimSpace s = rev (trimRunes (map rev spaceRunes) (rev (trimRunes spaceRunes s)))"

subsection \<open>\<^verbatim>\<open>uuid.NewUUID\<close>\<close>

text \<open>
  \<^verbatim>\<open>uuid.NewUUID()\<close> draws 16 random bytes and renders them as 36 characters: 32
  lower-case hexadecimal digits in groups of 8, 4, 4, 4 and 12, joined by \<^verbatim>\<open>-\<close>. The 16
  bytes are a \<open>128 word\<close>, byte 0 the most significant.
\<close>

type_synonym UUID = "128 word"

definition hexDigit :: "nat \<Rightarrow> char" where
  "hexDigit n = ''0123456789abcdef'' ! (n mod 16)"

definition hexByte :: "8 word \<Rightarrow> string" where
  "hexByte b = [hexDigit (unat (drop_bit 4 b)), hexDigit (unat (b AND 15))]"

definition uuidByte :: "UUID \<Rightarrow> nat \<Rightarrow> 8 word" where
  "uuidByte u i = ucast (drop_bit (8 * (15 - i)) u)"

definition encodeHex :: "UUID \<Rightarrow> nat list \<Rightarrow> string" where
  "encodeHex u ixs = concat (map (\<lambda>i. hexByte (uuidByte u i)) ixs)"

definition uuid_String :: "UUID \<Rightarrow> string" where
  "uuid_String u =
    encodeHex u [0..<4] @ ''-'' @ encodeHex u [4..<6] @ ''-'' @ encodeHex u [6..<8] @ ''-'' @
    encodeHex u [8..<10] @ ''-'' @ encodeHex u [10..<16]"

subsection \<open>The process and the world around it\<close>

text \<open>
  What the package can observe of the running process: the lines written through
  \<^verbatim>\<open>klog\<close>, and the exit status once \<^verbatim>\<open>os.Exit\<close> has been called. A call that can
  panic hands back the process state together with how it ended.
\<close>

record process =
  klog :: "string list"
  exited :: "int option"

datatype outcome = Returned process | Panicked process

text \<open>\<^verbatim>\<open>os.Exit(code)\<close>: the program terminates at once with the given status.\<close>

definition os_Exit :: "int \<Rightarrow> process \<Rightarrow> process" where
  "os_Exit code p = p\<lparr>exited := Some code\<rparr>"

text \<open>
  A process runs its pending actions one after the other, and runs none once it has
  exited.
\<close>

fun runProcess :: "(process \<Rightarrow> process) list \<Rightarrow> process \<Rightarrow> process" where
  "runProcess [] p = p"
| "runProcess (a # as) p = (if exited p = None then runProcess as (a p) else p)"

text \<open>
  The values of client-go that the constructor builds and passes on: the REST
  configuration, the client set made from it, the event recorder of a component, the
  configuration of a resource lock and the lock on a config map.
\<close>

datatype RestConfig = RestConfig string

datatype Clientset = Clientset RestConfig

datatype EventRecorder = NewRecorder Clientset string

record ResourceLockConfig =
  Identity :: string
  EventRecorder :: EventRecorder

record ConfigMapLock =
  LockNamespace :: string
  LockName :: string
  Client :: Clientset
  LockConfig :: ResourceLockConfig

definition ConfigMapsResourceLock :: string where
  "ConfigMapsResourceLock = ''configmaps''"

text \<open>
  Everything the package asks of its environment, as the answers it gets:
  \<^verbatim>\<open>kubernetes.NewForConfig\<close>, \<^verbatim>\<open>os.Hostname\<close>, the 16 bytes drawn by
  \<^verbatim>\<open>uuid.NewUUID\<close>, \<^verbatim>\<open>resourcelock.New\<close> (lock type, namespace, name, client, lock
  configuration), \<^verbatim>\<open>klog.Warningf\<close> and \<^verbatim>\<open>ioutil.ReadFile\<close> (by path).
\<close>

record world =
  NewForConfig :: "RestConfig \<Rightarrow> error + Clientset"
  Hostname :: "error + string"
  NewUUID :: UUID
  resourcelock_New ::
    "string \<Rightarrow> string \<Rightarrow> string \<Rightarrow> Clientset \<Rightarrow> ResourceLockConfig \<Rightarrow> error + ConfigMapLock"
  Warningf :: "string \<Rightarrow> process \<Rightarrow> outcome"
  ReadFile :: "string \<Rightarrow> error + string"

text \<open>
  \<^verbatim>\<open>leaderelection.LeaderCallbacks\<close> and \<^verbatim>\<open>leaderelection.LeaderElectionConfig\<close> of
  client-go. A callback that is not set is \<open>None\<close>. The three durations of this record
  carry the suffix \<open>_le\<close>, to keep them apart from the fields of \<open>LeaderElection\<close>.
\<close>

record LeaderCallbacks =
  OnStartedLeading :: "(process \<Rightarrow> process) option"
  OnStoppedLeading :: "(process \<Rightarrow> process) option"
  OnNewLeader :: "(string \<Rightarrow> process \<Rightarrow> process) option"

record LeaderElectionConfig =
  Lock :: ConfigMapLock
  ReleaseOnCancel :: bool
  LeaseDuration_le :: Duration
  RenewDeadline_le :: Duration
  RetryPeriod_le :: Duration
  Callbacks :: LeaderCallbacks

section \<open>The constructor\<close>

text \<open>
  Lines 32 to 40 of \<^verbatim>\<open>ToConfigMapLeaderElection\<close>: the identity of the holder. An
  identity the caller gave is kept; an empty one becomes the host name, \<^verbatim>\<open>_\<close> and a
  fresh UUID, or the UUID alone when the host name cannot be read.
\<close>

definition holderIdentity :: "world \<Rightarrow> string \<Rightarrow> string" where
  "holderIdentity w identity =
    (if length identity = 0 then
       (case Hostname w of
          Inl err \<Rightarrow> uuid_String (NewUUID w)
        | Inr hostname \<Rightarrow> hostname @ ''_'' @ uuid_String (NewUUID w))
     else identity)"

text \<open>
  The closure installed as \<^verbatim>\<open>OnStoppedLeading\<close>:
  \<^verbatim>\<open>defer os.Exit(0); klog.Warningf("leader election lost")\<close>. The deferred call runs
  when the body returns and when it panics.
\<close>

definition stoppedLeading :: "world \<Rightarrow> process \<Rightarrow> process" where
  "stoppedLeading w p =
    (case Warningf w ''leader election lost'' p of
       Returned p' \<Rightarrow> os_Exit 0 p'
     | Panicked p' \<Rightarrow> os_Exit 0 p')"

text \<open>
  \<^verbatim>\<open>ToConfigMapLeaderElection\<close>. Starting the event broadcaster has no effect on the
  value returned and is left out; the recorder it makes is kept.
\<close>

definition ToConfigMapLeaderElection ::
  "world \<Rightarrow> RestConfig \<Rightarrow> LeaderElection \<Rightarrow> string \<Rightarrow> string \<Rightarrow> error + LeaderElectionConfig" where
  "ToConfigMapLeaderElection w clientConfig config component identity =
    (case NewForConfig w clientConfig of
       Inl err \<Rightarrow> Inl err
     | Inr kubeClient \<Rightarrow>
         (let identity = holderIdentity w identity in
          if length (Namespace config) = 0 then Inl (Errorf ''namespace may not be empty'')
          else if length (Name config) = 0 then Inl (Errorf ''name may not be empty'')
          else
            (let eventRecorder = NewRecorder kubeClient component in
             case resourcelock_New w ConfigMapsResourceLock (Namespace config) (Name config)
                    kubeClient \<lparr>Identity = identity, EventRecorder = eventRecorder\<rparr> of
               Inl err \<Rightarrow> Inl err
             | Inr rl \<Rightarrow>
                 Inr \<lparr>Lock = rl,
                      ReleaseOnCancel = True,
                      LeaseDuration_le = LeaseDuration config,
                      RenewDeadline_le = RenewDeadline config,
                      RetryPeriod_le = RetryPeriod config,
                      Callbacks =
                        \<lparr>OnStartedLeading = None,
                         OnStoppedLeading = Some (stoppedLeading w),
                         OnNewLeader = None\<rparr>\<rparr>)))"

section \<open>Defaulting\<close>

definition serviceAccountNamespaceFile :: string where
  "serviceAccountNamespaceFile = ''/var/run/secrets/kubernetes.io/serviceaccount/namespace''"

text \<open>
  \<^verbatim>\<open>LeaderElectionDefaulting\<close> on values: \<open>ret\<close> starts as the copy of \<open>config\<close> and
  each statement of the source rebinds it.
\<close>

definition LeaderElectionDefaulting ::
  "world \<Rightarrow> LeaderElection \<Rightarrow> string \<Rightarrow> string \<Rightarrow> LeaderElection" where
  "LeaderElectionDefaulting w config defaultNamespace defaultName =
    (let ret = config;
         ret = (if LeaseDuration ret = 0 then ret\<lparr>LeaseDuration := 137 * Second\<rparr> else ret);
         ret = (if RenewDeadline ret = 0 then ret\<lparr>RenewDeadline := 107 * Second\<rparr> else ret);
         ret = (if RetryPeriod ret = 0 then ret\<lparr>RetryPeriod := 26 * Second\<rparr> else ret);
         ret =
           (if length (Namespace ret) = 0 then
              (if length defaultNamespace > 0 then ret\<lparr>Namespace := defaultNamespace\<rparr>
               else
                 (case ReadFile w serviceAccountNamespaceFile of
                    Inr data \<Rightarrow>
                      (let ns = TrimSpace data in
                       if length ns > 0 then ret\<lparr>Namespace := ns\<rparr> else ret)
                  | Inl err \<Rightarrow> ret))
            else ret);
         ret = (if length (Name ret) = 0 then ret\<lparr>Name := defaultName\<rparr> else ret)
     in ret)"

text \<open>\<^verbatim>\<open>LeaderElectionSNOConfig\<close> on values.\<close>

definition LeaderElectionSNOConfig :: "LeaderElection \<Rightarrow> LeaderElection" where
  "LeaderElectionSNOConfig config =
    (let ret = config;
         ret = ret\<lparr>LeaseDuration := 270 * Second\<rparr>;
         ret = ret\<lparr>RenewDeadline := 240 * Second\<rparr>;
         ret = ret\<lparr>RetryPeriod := 60 * Second\<rparr>
     in ret)"

text \<open>
  The arithmetic of the comment in \<^verbatim>\<open>LeaderElectionDefaulting\<close> (lines 91 to 93), in
  nanoseconds:
  \<^verbatim>\<open>lastRetry = floor(renewDeadline/retryPeriod)*retryPeriod\<close> and
  \<^verbatim>\<open>downtimeTolerance = lastRetry - retryPeriod\<close>.
\<close>

definition lastRetry :: "LeaderElection \<Rightarrow> int" where
  "lastRetry c = (sint (RenewDeadline c) div sint (RetryPeriod c)) * sint (RetryPeriod c)"

definition downtimeTolerance :: "LeaderElection \<Rightarrow> int" where
  "downtimeTolerance c = lastRetry c - sint (RetryPeriod c)"

section \<open>Calls, with the caller's variable in a store\<close>

text \<open>
  To speak of what a call does to the caller's value, the values live in a store: a list
  of cells, addressed by position. A new cell is allocated at the end. Go passes the
  struct by value (the parameter is a cell of its own, holding a copy of the argument),
  \<^verbatim>\<open>DeepCopy\<close> allocates the cell \<open>out\<close> and copies into it, and \<open>ret\<close> is a third
  cell; the statements of the body then write to \<open>ret\<close>.
\<close>

type_synonym store = "LeaderElection list"

definition alloc :: "LeaderElection \<Rightarrow> store \<Rightarrow> nat \<times> store" where
  "alloc v h = (length h, h @ [v])"

definition DeepCopy :: "nat \<Rightarrow> store \<Rightarrow> nat \<times> store" where
  "DeepCopy src h = alloc (h ! src) h"

definition LeaderElectionDefaulting_call ::
  "world \<Rightarrow> store \<Rightarrow> nat \<Rightarrow> string \<Rightarrow> string \<Rightarrow> LeaderElection \<times> store" where
  "LeaderElectionDefaulting_call w h arg defaultNamespace defaultName =
    (let (config, h) = alloc (h ! arg) h;
         (out, h) = DeepCopy config h;
         (ret, h) = alloc (h ! out) h;
         h = (if LeaseDuration (h ! ret) = 0
              then h[ret := (h ! ret)\<lparr>LeaseDuration := 137 * Second\<rparr>] else h);
         h = (if RenewDeadline (h ! ret) = 0
              then h[ret := (h ! ret)\<lparr>RenewDeadline := 107 * Second\<rparr>] else h);
         h = (if RetryPeriod (h ! ret) = 0
              then h[ret := (h ! ret)\<lparr>RetryPeriod := 26 * Second\<rparr>] else h);
         h =
           (if length (Namespace (h ! ret)) = 0 then
              (if length defaultNamespace > 0
               then h[ret := (h ! ret)\<lparr>Namespace := defaultNamespace\<rparr>]
               else
                 (case ReadFile w serviceAccountNamespaceFile of
                    Inr data \<Rightarrow>
                      (let ns = TrimSpace data in
                       if length ns > 0 then h[ret := (h ! ret)\<lparr>Namespace := ns\<rparr>] else h)
                  | Inl err \<Rightarrow> h))
            else h);
         h = (if length (Name (h ! ret)) = 0
              then h[ret := (h ! ret)\<lparr>Name := defaultName\<rparr>] else h)
     in (h ! ret, h))"

definition LeaderElectionSNOConfig_call :: "store \<Rightarrow> nat \<Rightarrow> LeaderElection \<times> store" where
  "LeaderElectionSNOConfig_call h arg =
    (let (config, h) = alloc (h ! arg) h;
         (out, h) = DeepCopy config h;
         (ret, h) = alloc (h ! out) h;
         h = h[ret := (h ! ret)\<lparr>LeaseDuration := 270 * Second\<rparr>];
         h = h[ret := (h ! ret)\<lparr>RenewDeadline := 240 * Second\<rparr>];
         h = h[ret := (h ! ret)\<lparr>RetryPeriod := 60 * Second\<rparr>]
     in (h ! ret, h))"

section \<open>A concrete world and concrete configurations\<close>

text \<open>
  The usual \<^verbatim>\<open>klog.Warningf\<close>: the line is written and the call returns.
\<close>

definition klog_Warningf :: "string \<Rightarrow> process \<Rightarrow> outcome" where
  "klog_Warningf msg p = Returned (p\<lparr>klog := klog p @ [msg]\<rparr>)"

text \<open>
  A pod on the host \<^verbatim>\<open>master-0\<close>: the client set is made, the service account's
  namespace file holds \<^verbatim>\<open>openshift-etcd\<close> and a newline, locks on config maps are
  made, and the UUID drawn is \<^verbatim>\<open>123e4567-e89b-12d3-a456-426614174000\<close>.
\<close>

definition podWorld :: world where
  "podWorld =
    \<lparr>NewForConfig = (\<lambda>clientConfig. Inr (Clientset clientConfig)),
     Hostname = Inr ''master-0'',
     NewUUID = 0x123e4567e89b12d3a456426614174000,
     resourcelock_New =
       (\<lambda>lockType ns name kubeClient rlc.
          if lockType = ConfigMapsResourceLock
          then Inr \<lparr>LockNamespace = ns, LockName = name, Client = kubeClient, LockConfig = rlc\<rparr>
          else Inl (Errorf ''Invalid lock-type'')),
     Warningf = klog_Warningf,
     ReadFile =
       (\<lambda>path.
          if path = serviceAccountNamespaceFile then Inr ''openshift-etcd\<newline>''
          else Inl (Errorf ''no such file or directory''))\<rparr>"

definition apiServer :: RestConfig where
  "apiServer = RestConfig ''https://api.cluster.local:6443''"

text \<open>A configuration with nothing set, and one with a lease duration and a retry period set.\<close>

definition unsetConfig :: LeaderElection where
  "unsetConfig =
    \<lparr>Disable = False, Namespace = [], Name = [],
     LeaseDuration = 0, RenewDeadline = 0, RetryPeriod = 0\<rparr>"

definition tunedConfig :: LeaderElection where
  "tunedConfig =
    \<lparr>Disable = False, Namespace = ''kube-system'', Name = ''controller-lock'',
     LeaseDuration = 60 * Second, RenewDeadline = 0, RetryPeriod = 5 * Second\<rparr>"

section \<open>Defaulting of the durations\<close>

lemma standard_defaults_nonzero:
  "137 * Second \<noteq> 0" "107 * Second \<noteq> 0" "26 * Second \<noteq> 0"
  by (simp_all add: Second_def)

lemma TrimSpace_namespace_file: "TrimSpace ''openshift-etcd\<newline>'' = ''openshift-etcd''"
  by code_simp

text \<open>
  C1, as the code has it. \<^verbatim>\<open>LeaderElectionDefaulting\<close> gives each of the three durations
  its default (137s, 107s, 26s) exactly when the input holds zero there and keeps every
  non-zero duration, so that no duration of its result is zero.
  \<^verbatim>\<open>LeaderElectionSNOConfig\<close> sets the three durations to 270s, 240s and 60s whatever
  the input holds, and changes no other field.
\<close>

theorem C1_defaulting_durations:
  "LeaseDuration (LeaderElectionDefaulting w c dns dn) =
     (if LeaseDuration c = 0 then 137 * Second else LeaseDuration c) \<and>
   RenewDeadline (LeaderElectionDefaulting w c dns dn) =
     (if RenewDeadline c = 0 then 107 * Second else RenewDeadline c) \<and>
   RetryPeriod (LeaderElectionDefaulting w c dns dn) =
     (if RetryPeriod c = 0 then 26 * Second else RetryPeriod c) \<and>
   LeaseDuration (LeaderElectionDefaulting w c dns dn) \<noteq> 0 \<and>
   RenewDeadline (LeaderElectionDefaulting w c dns dn) \<noteq> 0 \<and>
   RetryPeriod (LeaderElectionDefaulting w c dns dn) \<noteq> 0 \<and>
   LeaderElectionSNOConfig c =
     c\<lparr>LeaseDuration := 270 * Second, RenewDeadline := 240 * Second,
       RetryPeriod := 60 * Second\<rparr>"
  by (simp add: LeaderElectionDefaulting_def LeaderElectionSNOConfig_def Let_def
      standard_defaults_nonzero split: sum.splits)

theorem C1_defaulting_durations_witness:
  "LeaseDuration (LeaderElectionDefaulting podWorld tunedConfig [] []) = 60 * Second \<and>
   RenewDeadline (LeaderElectionDefaulting podWorld tunedConfig [] []) = 107 * Second \<and>
   RetryPeriod (LeaderElectionDefaulting podWorld tunedConfig [] []) = 5 * Second \<and>
   LeaseDuration (LeaderElectionSNOConfig tunedConfig) = 270 * Second"
  using C1_defaulting_durations [of podWorld tunedConfig "[]" "[]"]
  by (simp add: tunedConfig_def Second_def)

text \<open>
  C1 as stated fails for the single-node function: a lease duration of 60s set by the
  caller comes back as 270s.
\<close>

theorem C1_sno_overwrites_set_duration:
  "LeaseDuration
     \<lparr>Disable = False, Namespace = ''kube-system'', Name = ''controller-lock'',
      LeaseDuration = 60 * Second, RenewDeadline = 0, RetryPeriod = 5 * Second\<rparr> \<noteq> 0 \<and>
   LeaseDuration
     (LeaderElectionSNOConfig
        \<lparr>Disable = False, Namespace = ''kube-system'', Name = ''controller-lock'',
         LeaseDuration = 60 * Second, RenewDeadline = 0, RetryPeriod = 5 * Second\<rparr>) \<noteq>
   60 * Second"
  by (simp add: LeaderElectionSNOConfig_def Second_def)

text \<open>
  C2. When the three durations of the input are zero, the result of the standard
  defaulting and the result of the single-node function both satisfy
  \<open>0 < RetryPeriod < RenewDeadline < LeaseDuration\<close>, as signed 64-bit values.
\<close>

theorem C2_profiles_ordered:
  "LeaseDuration c = 0 \<Longrightarrow> RenewDeadline c = 0 \<Longrightarrow> RetryPeriod c = 0 \<Longrightarrow>
    (0 <s RetryPeriod (LeaderElectionDefaulting w c dns dn) \<and>
     RetryPeriod (LeaderElectionDefaulting w c dns dn) <s
       RenewDeadline (LeaderElectionDefaulting w c dns dn) \<and>
     RenewDeadline (LeaderElectionDefaulting w c dns dn) <s
       LeaseDuration (LeaderElectionDefaulting w c dns dn)) \<and>
    (0 <s RetryPeriod (LeaderElectionSNOConfig c) \<and>
     RetryPeriod (LeaderElectionSNOConfig c) <s RenewDeadline (LeaderElectionSNOConfig c) \<and>
     RenewDeadline (LeaderElectionSNOConfig c) <s LeaseDuration (LeaderElectionSNOConfig c))"
  by (simp add: LeaderElectionDefaulting_def LeaderElectionSNOConfig_def Let_def Second_def
      word_sless_alt split: sum.splits)

theorem C2_profiles_ordered_witness:
  "LeaseDuration unsetConfig = 0 \<and> RenewDeadline unsetConfig = 0 \<and> RetryPeriod unsetConfig = 0 \<and>
   0 <s RetryPeriod (LeaderElectionDefaulting podWorld unsetConfig [] []) \<and>
   RetryPeriod (LeaderElectionDefaulting podWorld unsetConfig [] []) <s
     RenewDeadline (LeaderElectionDefaulting podWorld unsetConfig [] []) \<and>
   RenewDeadline (LeaderElectionDefaulting podWorld unsetConfig [] []) <s
     LeaseDuration (LeaderElectionDefaulting podWorld unsetConfig [] []) \<and>
   RetryPeriod (LeaderElectionSNOConfig unsetConfig) <s
     RenewDeadline (LeaderElectionSNOConfig unsetConfig)"
proof -
  have z: "LeaseDuration unsetConfig = 0" "RenewDeadline unsetConfig = 0"
    "RetryPeriod unsetConfig = 0"
    by (simp_all add: unsetConfig_def)
  from C2_profiles_ordered [OF z, of podWorld "[]" "[]"] z show ?thesis by simp
qed

text \<open>
  C3. With the three durations defaulted, the downtime tolerance of the comment,
  \<open>floor(RenewDeadline / RetryPeriod) * RetryPeriod - RetryPeriod\<close>, is 78 seconds for the
  standard profile (137s, 107s, 26s) and 180 seconds for the single-node profile (270s,
  240s, 60s), counted in nanoseconds.
\<close>

theorem C3_downtime_tolerance:
  "LeaseDuration c = 0 \<Longrightarrow> RenewDeadline c = 0 \<Longrightarrow> RetryPeriod c = 0 \<Longrightarrow>
    LeaseDuration (LeaderElectionDefaulting w c dns dn) = 137 * Second \<and>
    RenewDeadline (LeaderElectionDefaulting w c dns dn) = 107 * Second \<and>
    RetryPeriod (LeaderElectionDefaulting w c dns dn) = 26 * Second \<and>
    downtimeTolerance (LeaderElectionDefaulting w c dns dn) = 78 * sint Second \<and>
    LeaseDuration (LeaderElectionSNOConfig c) = 270 * Second \<and>
    RenewDeadline (LeaderElectionSNOConfig c) = 240 * Second \<and>
    RetryPeriod (LeaderElectionSNOConfig c) = 60 * Second \<and>
    downtimeTolerance (LeaderElectionSNOConfig c) = 180 * sint Second \<and>
    sint Second = 1000000000"
  by (simp add: LeaderElectionDefaulting_def LeaderElectionSNOConfig_def Let_def Second_def
      downtimeTolerance_def lastRetry_def split: sum.splits)

theorem C3_downtime_tolerance_witness:
  "LeaseDuration unsetConfig = 0 \<and> RenewDeadline unsetConfig = 0 \<and> RetryPeriod unsetConfig = 0 \<and>
   downtimeTolerance (LeaderElectionDefaulting podWorld unsetConfig [] []) = 78000000000 \<and>
   downtimeTolerance (LeaderElectionSNOConfig unsetConfig) = 180000000000"
proof -
  have z: "LeaseDuration unsetConfig = 0" "RenewDeadline unsetConfig = 0"
    "RetryPeriod unsetConfig = 0"
    by (simp_all add: unsetConfig_def)
  from C3_downtime_tolerance [OF z, of podWorld "[]" "[]"] z show ?thesis by simp
qed

section \<open>Resolution of the namespace\<close>

text \<open>
  C4. The namespace of the result of \<^verbatim>\<open>LeaderElectionDefaulting\<close> is the namespace of
  the input when that is not empty; otherwise the fallback argument when that is not
  empty; otherwise the trimmed contents of the service account's namespace file, when
  the file can be read and its trimmed contents are not empty; otherwise it stays empty.
\<close>

theorem C4_namespace_precedence:
  "Namespace (LeaderElectionDefaulting w c dns dn) =
    (if Namespace c \<noteq> [] then Namespace c
     else if dns \<noteq> [] then dns
     else (case ReadFile w serviceAccountNamespaceFile of
             Inr data \<Rightarrow> if TrimSpace data \<noteq> [] then TrimSpace data else []
           | Inl err \<Rightarrow> []))"
  by (simp add: LeaderElectionDefaulting_def Let_def split: sum.splits)

theorem C4_namespace_precedence_witness:
  "Namespace (LeaderElectionDefaulting podWorld tunedConfig ''fallback'' []) = ''kube-system'' \<and>
   Namespace (LeaderElectionDefaulting podWorld unsetConfig ''fallback'' []) = ''fallback'' \<and>
   Namespace (LeaderElectionDefaulting podWorld unsetConfig [] []) = ''openshift-etcd'' \<and>
   Namespace
     (LeaderElectionDefaulting
        (podWorld\<lparr>ReadFile := \<lambda>path. Inl (Errorf ''no such file or directory'')\<rparr>)
        unsetConfig [] []) = []"
  using C4_namespace_precedence [of podWorld tunedConfig "''fallback''" "[]"]
    C4_namespace_precedence [of podWorld unsetConfig "''fallback''" "[]"]
    C4_namespace_precedence [of podWorld unsetConfig "[]" "[]"]
    C4_namespace_precedence
      [of "podWorld\<lparr>ReadFile := \<lambda>path. Inl (Errorf ''no such file or directory'')\<rparr>"
        unsetConfig "[]" "[]"]
  by (simp add: podWorld_def tunedConfig_def unsetConfig_def TrimSpace_namespace_file)

section \<open>The constructor\<close>

lemma uuid_String_nonempty: "uuid_String u \<noteq> []"
  by (simp add: uuid_String_def)

lemma holderIdentity_nonempty: "holderIdentity w ident \<noteq> []"
  by (cases "Hostname w") (simp_all add: holderIdentity_def uuid_String_nonempty)

lemma holderIdentity_given: "ident \<noteq> [] \<Longrightarrow> holderIdentity w ident = ident"
  by (simp add: holderIdentity_def)

lemma stoppedLeading_Hostname [simp]: "stoppedLeading (w\<lparr>Hostname := x\<rparr>) = stoppedLeading w"
  by (rule ext) (simp add: stoppedLeading_def)

lemma stoppedLeading_exits: "exited (stoppedLeading w p) = Some 0"
  by (simp add: stoppedLeading_def os_Exit_def split: outcome.splits)

lemma runProcess_exited: "exited p \<noteq> None \<Longrightarrow> runProcess as p = p"
  by (cases as) auto

text \<open>What the constructor returns when it returns a configuration.\<close>

lemma constructor_success:
  "ToConfigMapLeaderElection w cc c component ident = Inr r \<Longrightarrow>
     \<exists>rl. r = \<lparr>Lock = rl, ReleaseOnCancel = True, LeaseDuration_le = LeaseDuration c,
            RenewDeadline_le = RenewDeadline c, RetryPeriod_le = RetryPeriod c,
            Callbacks = \<lparr>OnStartedLeading = None, OnStoppedLeading = Some (stoppedLeading w),
                          OnNewLeader = None\<rparr>\<rparr>"
  by (auto simp add: ToConfigMapLeaderElection_def Let_def split: sum.splits if_splits)

text \<open>The pod of the examples, asked for a lock with the tuned configuration.\<close>

lemma podWorld_uuid:
  "uuid_String (NewUUID podWorld) = ''123e4567-e89b-12d3-a456-426614174000''"
proof -
  have "uuid_String 0x123e4567e89b12d3a456426614174000 =
      ''123e4567-e89b-12d3-a456-426614174000''"
    by code_simp
  then show ?thesis by (simp add: podWorld_def)
qed

lemma podWorld_client: "NewForConfig podWorld cc = Inr (Clientset cc)"
  by (simp add: podWorld_def)

lemma podWorld_lock:
  "resourcelock_New podWorld ConfigMapsResourceLock ns name kc rlc =
     Inr \<lparr>LockNamespace = ns, LockName = name, Client = kc, LockConfig = rlc\<rparr>"
  by (simp add: podWorld_def)

lemma podWorld_constructor:
  "Namespace c \<noteq> [] \<Longrightarrow> Name c \<noteq> [] \<Longrightarrow>
   ToConfigMapLeaderElection podWorld cc c component ident =
     Inr \<lparr>Lock =
            \<lparr>LockNamespace = Namespace c, LockName = Name c, Client = Clientset cc,
             LockConfig =
               \<lparr>Identity = holderIdentity podWorld ident,
                EventRecorder = NewRecorder (Clientset cc) component\<rparr>\<rparr>,
          ReleaseOnCancel = True,
          LeaseDuration_le = LeaseDuration c,
          RenewDeadline_le = RenewDeadline c,
          RetryPeriod_le = RetryPeriod c,
          Callbacks =
            \<lparr>OnStartedLeading = None, OnStoppedLeading = Some (stoppedLeading podWorld),
             OnNewLeader = None\<rparr>\<rparr>"
  by (simp add: ToConfigMapLeaderElection_def podWorld_client podWorld_lock)

lemma tunedConfig_named: "Namespace tunedConfig \<noteq> []" "Name tunedConfig \<noteq> []"
  by (simp_all add: tunedConfig_def)

text \<open>
  C5. When the namespace or the name of the configuration is empty, the constructor
  returns an error and no configuration; once the client set has been made, the error is
  the one of the validation (the namespace is checked first), and the result does not
  depend on what \<^verbatim>\<open>resourcelock.New\<close> would answer: it returns before any lock is
  made. When both are non-empty, every error it returns is the error that
  \<^verbatim>\<open>kubernetes.NewForConfig\<close> or \<^verbatim>\<open>resourcelock.New\<close> returned, not a validation error.
\<close>

theorem C5_validation_error:
  "(Namespace c = [] \<or> Name c = [] \<longrightarrow>
      (\<exists>e. ToConfigMapLeaderElection w cc c component ident = Inl e) \<and>
      (\<forall>kc. NewForConfig w cc = Inr kc \<longrightarrow>
         ToConfigMapLeaderElection w cc c component ident =
           Inl (Errorf (if Namespace c = [] then ''namespace may not be empty''
                        else ''name may not be empty''))) \<and>
      (\<forall>f. ToConfigMapLeaderElection (w\<lparr>resourcelock_New := f\<rparr>) cc c component ident =
            ToConfigMapLeaderElection w cc c component ident)) \<and>
   (Namespace c \<noteq> [] \<and> Name c \<noteq> [] \<longrightarrow>
      (\<forall>e. ToConfigMapLeaderElection w cc c component ident = Inl e \<longrightarrow>
         NewForConfig w cc = Inl e \<or>
         (\<exists>kc. NewForConfig w cc = Inr kc \<and>
            resourcelock_New w ConfigMapsResourceLock (Namespace c) (Name c) kc
              \<lparr>Identity = holderIdentity w ident,
               EventRecorder = NewRecorder kc component\<rparr> = Inl e)))"
  by (auto simp add: ToConfigMapLeaderElection_def Let_def holderIdentity_def
      split: sum.splits)

theorem C5_validation_error_witness:
  "Namespace unsetConfig = [] \<and>
   ToConfigMapLeaderElection podWorld apiServer unsetConfig ''etcd-operator'' [] =
     Inl (Errorf ''namespace may not be empty'') \<and>
   Namespace (unsetConfig\<lparr>Namespace := ''kube-system''\<rparr>) \<noteq> [] \<and>
   Name (unsetConfig\<lparr>Namespace := ''kube-system''\<rparr>) = [] \<and>
   ToConfigMapLeaderElection podWorld apiServer (unsetConfig\<lparr>Namespace := ''kube-system''\<rparr>)
     ''etcd-operator'' [] = Inl (Errorf ''name may not be empty'') \<and>
   Namespace tunedConfig \<noteq> [] \<and> Name tunedConfig \<noteq> [] \<and>
   \<not> isl (ToConfigMapLeaderElection podWorld apiServer tunedConfig ''etcd-operator'' [])"
proof -
  have ns: "Namespace unsetConfig = []"
    by (simp add: unsetConfig_def)
  have nm: "Namespace (unsetConfig\<lparr>Namespace := ''kube-system''\<rparr>) \<noteq> []"
    "Name (unsetConfig\<lparr>Namespace := ''kube-system''\<rparr>) = []"
    by (simp_all add: unsetConfig_def)
  have first: "ToConfigMapLeaderElection podWorld apiServer unsetConfig ''etcd-operator'' [] =
     Inl (Errorf ''namespace may not be empty'')"
    using C5_validation_error [of unsetConfig podWorld apiServer "''etcd-operator''" "[]"]
      ns podWorld_client [of apiServer]
    by simp
  have second:
    "ToConfigMapLeaderElection podWorld apiServer (unsetConfig\<lparr>Namespace := ''kube-system''\<rparr>)
       ''etcd-operator'' [] = Inl (Errorf ''name may not be empty'')"
    using C5_validation_error [of "unsetConfig\<lparr>Namespace := ''kube-system''\<rparr>" podWorld
        apiServer "''etcd-operator''" "[]"]
      nm podWorld_client [of apiServer]
    by simp
  have third: "\<not> isl (ToConfigMapLeaderElection podWorld apiServer tunedConfig ''etcd-operator'' [])"
  proof
    assume "isl (ToConfigMapLeaderElection podWorld apiServer tunedConfig ''etcd-operator'' [])"
    then obtain e where
      "ToConfigMapLeaderElection podWorld apiServer tunedConfig ''etcd-operator'' [] = Inl e"
      by (auto simp add: isl_def)
    with C5_validation_error [of tunedConfig podWorld apiServer "''etcd-operator''" "[]"]
      tunedConfig_named
    show False
      by (simp add: podWorld_client podWorld_lock)
  qed
  from ns nm first second third tunedConfig_named show ?thesis by simp
qed

text \<open>
  C6. When the caller gives no identity, the identity of the holder is the host name,
  \<^verbatim>\<open>_\<close> and the UUID when the host name can be read, and the UUID alone when it cannot;
  it is never empty. The constructor then behaves as if the caller had given that
  identity, and when reading the host name fails, with whatever error, as if the caller
  had given the UUID: the failure does not reach the caller.
\<close>

theorem C6_holder_identity:
  "holderIdentity w [] =
     (case Hostname w of
        Inr hostname \<Rightarrow> hostname @ ''_'' @ uuid_String (NewUUID w)
      | Inl err \<Rightarrow> uuid_String (NewUUID w)) \<and>
   holderIdentity w [] \<noteq> [] \<and>
   ToConfigMapLeaderElection w cc c component [] =
     ToConfigMapLeaderElection w cc c component (holderIdentity w []) \<and>
   (\<forall>e. ToConfigMapLeaderElection (w\<lparr>Hostname := Inl e\<rparr>) cc c component [] =
        ToConfigMapLeaderElection w cc c component (uuid_String (NewUUID w)))"
proof (intro conjI allI)
  show "holderIdentity w [] =
     (case Hostname w of
        Inr hostname \<Rightarrow> hostname @ ''_'' @ uuid_String (NewUUID w)
      | Inl err \<Rightarrow> uuid_String (NewUUID w))"
    by (simp add: holderIdentity_def split: sum.splits)
  show "holderIdentity w [] \<noteq> []" by (rule holderIdentity_nonempty)
  have again: "holderIdentity w (holderIdentity w []) = holderIdentity w []"
    by (rule holderIdentity_given) (rule holderIdentity_nonempty)
  show "ToConfigMapLeaderElection w cc c component [] =
     ToConfigMapLeaderElection w cc c component (holderIdentity w [])"
    unfolding ToConfigMapLeaderElection_def again by (rule refl)
next
  fix e
  have failed: "holderIdentity (w\<lparr>Hostname := Inl e\<rparr>) [] = uuid_String (NewUUID w)"
    by (simp add: holderIdentity_def)
  have given: "holderIdentity w (uuid_String (NewUUID w)) = uuid_String (NewUUID w)"
    by (rule holderIdentity_given) (rule uuid_String_nonempty)
  show "ToConfigMapLeaderElection (w\<lparr>Hostname := Inl e\<rparr>) cc c component [] =
        ToConfigMapLeaderElection w cc c component (uuid_String (NewUUID w))"
    unfolding ToConfigMapLeaderElection_def failed given
    by (simp add: Let_def split: sum.splits)
qed

theorem C6_holder_identity_witness:
  "holderIdentity podWorld [] = ''master-0_123e4567-e89b-12d3-a456-426614174000'' \<and>
   holderIdentity (podWorld\<lparr>Hostname := Inl (Errorf ''hostname: unknown'')\<rparr>) [] =
     ''123e4567-e89b-12d3-a456-426614174000'' \<and>
   \<not> isl (ToConfigMapLeaderElection (podWorld\<lparr>Hostname := Inl (Errorf ''hostname: unknown'')\<rparr>)
           apiServer tunedConfig ''etcd-operator'' [])"
proof -
  have host: "Hostname podWorld = Inr ''master-0''"
    by (simp add: podWorld_def)
  from C6_holder_identity [of podWorld apiServer tunedConfig "''etcd-operator''"] host
  have one: "holderIdentity podWorld [] = ''master-0_123e4567-e89b-12d3-a456-426614174000''"
    by (simp add: podWorld_uuid)
  from C6_holder_identity
    [of "podWorld\<lparr>Hostname := Inl (Errorf ''hostname: unknown'')\<rparr>" apiServer tunedConfig
      "''etcd-operator''"]
  have two: "holderIdentity (podWorld\<lparr>Hostname := Inl (Errorf ''hostname: unknown'')\<rparr>) [] =
     ''123e4567-e89b-12d3-a456-426614174000''"
    by (simp add: podWorld_uuid)
  from C6_holder_identity [of podWorld apiServer tunedConfig "''etcd-operator''"]
  have "ToConfigMapLeaderElection (podWorld\<lparr>Hostname := Inl (Errorf ''hostname: unknown'')\<rparr>)
          apiServer tunedConfig ''etcd-operator'' [] =
        ToConfigMapLeaderElection podWorld apiServer tunedConfig ''etcd-operator''
          (uuid_String (NewUUID podWorld))"
    by blast
  then have three:
    "\<not> isl (ToConfigMapLeaderElection (podWorld\<lparr>Hostname := Inl (Errorf ''hostname: unknown'')\<rparr>)
           apiServer tunedConfig ''etcd-operator'' [])"
    by (simp add: podWorld_constructor tunedConfig_named)
  from one two three show ?thesis by simp
qed

text \<open>
  C7. The callback that the constructor installs as \<^verbatim>\<open>OnStoppedLeading\<close> is the
  closure \<open>stoppedLeading\<close>. Whatever the logging does (return or panic), the process
  has exited with status 0 when the callback is over; with the usual logger the line
  \<^verbatim>\<open>leader election lost\<close> has been written before. A process that runs the callback
  and has further actions pending runs none of them: its state stays the one the
  callback left.
\<close>

theorem C7_stopped_leading_exits:
  "ToConfigMapLeaderElection w cc c component ident = Inr r \<Longrightarrow>
     OnStoppedLeading (Callbacks r) = Some (stoppedLeading w) \<and>
     (\<forall>p. exited (stoppedLeading w p) = Some 0) \<and>
     (\<forall>p. Warningf w = klog_Warningf \<longrightarrow>
        stoppedLeading w p = p\<lparr>klog := klog p @ [''leader election lost''], exited := Some 0\<rparr>) \<and>
     (\<forall>p actions. exited p = None \<longrightarrow>
        runProcess (stoppedLeading w # actions) p = stoppedLeading w p)"
proof (intro conjI allI impI)
  assume "ToConfigMapLeaderElection w cc c component ident = Inr r"
  from constructor_success [OF this]
  show "OnStoppedLeading (Callbacks r) = Some (stoppedLeading w)" by auto
next
  fix p :: process
  show "exited (stoppedLeading w p) = Some 0" by (rule stoppedLeading_exits)
next
  fix p :: process
  assume "Warningf w = klog_Warningf"
  then show "stoppedLeading w p =
      p\<lparr>klog := klog p @ [''leader election lost''], exited := Some 0\<rparr>"
    by (simp add: stoppedLeading_def klog_Warningf_def os_Exit_def)
next
  fix p :: process and actions :: "(process \<Rightarrow> process) list"
  assume "exited p = None"
  then have "runProcess (stoppedLeading w # actions) p = runProcess actions (stoppedLeading w p)"
    by simp
  also have "\<dots> = stoppedLeading w p"
    by (rule runProcess_exited) (simp add: stoppedLeading_exits)
  finally show "runProcess (stoppedLeading w # actions) p = stoppedLeading w p" .
qed

theorem C7_stopped_leading_exits_witness:
  "(\<exists>r. ToConfigMapLeaderElection podWorld apiServer tunedConfig ''etcd-operator'' [] = Inr r \<and>
        OnStoppedLeading (Callbacks r) = Some (stoppedLeading podWorld)) \<and>
   stoppedLeading podWorld \<lparr>klog = [], exited = None\<rparr> =
     \<lparr>klog = [''leader election lost''], exited = Some 0\<rparr> \<and>
   runProcess [stoppedLeading podWorld, \<lambda>p. p\<lparr>klog := klog p @ [''lease renewed'']\<rparr>]
     \<lparr>klog = [], exited = None\<rparr> =
     \<lparr>klog = [''leader election lost''], exited = Some 0\<rparr>"
proof -
  obtain r where ok:
    "ToConfigMapLeaderElection podWorld apiServer tunedConfig ''etcd-operator'' [] = Inr r"
    using podWorld_constructor [OF tunedConfig_named] by blast
  note facts = C7_stopped_leading_exits [OF ok]
  have logger: "Warningf podWorld = klog_Warningf"
    by (simp add: podWorld_def)
  from facts have cb: "OnStoppedLeading (Callbacks r) = Some (stoppedLeading podWorld)"
    by blast
  from facts logger have line: "stoppedLeading podWorld \<lparr>klog = [], exited = None\<rparr> =
      \<lparr>klog = [''leader election lost''], exited = Some 0\<rparr>"
    by simp
  from facts have
    "runProcess [stoppedLeading podWorld, \<lambda>p. p\<lparr>klog := klog p @ [''lease renewed'']\<rparr>]
       \<lparr>klog = [], exited = None\<rparr> = stoppedLeading podWorld \<lparr>klog = [], exited = None\<rparr>"
    by simp
  with line ok cb show ?thesis by simp
qed

text \<open>
  C9. Every configuration that the constructor returns has \<^verbatim>\<open>ReleaseOnCancel\<close> set.
\<close>

theorem C9_release_on_cancel:
  "ToConfigMapLeaderElection w cc c component ident = Inr r \<Longrightarrow> ReleaseOnCancel r = True"
  using constructor_success [of w cc c component ident r] by auto

theorem C9_release_on_cancel_witness:
  "\<exists>r. ToConfigMapLeaderElection podWorld apiServer tunedConfig ''etcd-operator'' [] = Inr r \<and>
       ReleaseOnCancel r = True"
proof -
  obtain r where ok:
    "ToConfigMapLeaderElection podWorld apiServer tunedConfig ''etcd-operator'' [] = Inr r"
    using podWorld_constructor [OF tunedConfig_named] by blast
  from C9_release_on_cancel [OF ok] ok show ?thesis by blast
qed

text \<open>
  C10. The durations of a configuration that the constructor returns are those of the
  input. Whether the constructor fails does not depend on the durations: with any other
  three durations it fails with the same error, or returns the same configuration with
  those durations in it. So zero durations and durations in the wrong order pass.
\<close>

theorem C10_durations_verbatim:
  "(ToConfigMapLeaderElection w cc c component ident = Inr r \<longrightarrow>
      LeaseDuration_le r = LeaseDuration c \<and> RenewDeadline_le r = RenewDeadline c \<and>
      RetryPeriod_le r = RetryPeriod c) \<and>
   (case ToConfigMapLeaderElection w cc c component ident of
      Inl e \<Rightarrow>
        ToConfigMapLeaderElection w cc
          (c\<lparr>LeaseDuration := ld, RenewDeadline := rd, RetryPeriod := rp\<rparr>) component ident =
        Inl e
    | Inr r' \<Rightarrow>
        ToConfigMapLeaderElection w cc
          (c\<lparr>LeaseDuration := ld, RenewDeadline := rd, RetryPeriod := rp\<rparr>) component ident =
        Inr (r'\<lparr>LeaseDuration_le := ld, RenewDeadline_le := rd, RetryPeriod_le := rp\<rparr>))"
proof
  show "ToConfigMapLeaderElection w cc c component ident = Inr r \<longrightarrow>
      LeaseDuration_le r = LeaseDuration c \<and> RenewDeadline_le r = RenewDeadline c \<and>
      RetryPeriod_le r = RetryPeriod c"
    using constructor_success [of w cc c component ident r] by auto
  show "case ToConfigMapLeaderElection w cc c component ident of
      Inl e \<Rightarrow>
        ToConfigMapLeaderElection w cc
          (c\<lparr>LeaseDuration := ld, RenewDeadline := rd, RetryPeriod := rp\<rparr>) component ident =
        Inl e
    | Inr r' \<Rightarrow>
        ToConfigMapLeaderElection w cc
          (c\<lparr>LeaseDuration := ld, RenewDeadline := rd, RetryPeriod := rp\<rparr>) component ident =
        Inr (r'\<lparr>LeaseDuration_le := ld, RenewDeadline_le := rd, RetryPeriod_le := rp\<rparr>)"
    by (simp add: ToConfigMapLeaderElection_def Let_def split: sum.splits)
qed

theorem C10_durations_verbatim_witness:
  "\<exists>r. ToConfigMapLeaderElection podWorld apiServer
         (tunedConfig\<lparr>LeaseDuration := 0, RenewDeadline := 5 * Second, RetryPeriod := 60 * Second\<rparr>)
         ''etcd-operator'' [] = Inr r \<and>
       LeaseDuration_le r = 0 \<and> RenewDeadline_le r = 5 * Second \<and> RetryPeriod_le r = 60 * Second"
proof -
  obtain r where ok:
    "ToConfigMapLeaderElection podWorld apiServer tunedConfig ''etcd-operator'' [] = Inr r"
    using podWorld_constructor [OF tunedConfig_named] by blast
  from C10_durations_verbatim
    [where w = podWorld and cc = apiServer and c = tunedConfig and component = "''etcd-operator''"
      and ident = "[]" and r = r and ld = 0 and rd = "5 * Second" and rp = "60 * Second"] ok
  have "ToConfigMapLeaderElection podWorld apiServer
         (tunedConfig\<lparr>LeaseDuration := 0, RenewDeadline := 5 * Second, RetryPeriod := 60 * Second\<rparr>)
         ''etcd-operator'' [] =
        Inr (r\<lparr>LeaseDuration_le := 0, RenewDeadline_le := 5 * Second, RetryPeriod_le := 60 * Second\<rparr>)"
    by simp
  then show ?thesis by simp
qed

section \<open>The caller's value\<close>

lemma cell_read: "(h @ [a, b, r]) ! Suc (Suc (length h)) = r"
  by (simp add: nth_append)

lemma cell_write: "(h @ [a, b, r])[Suc (Suc (length h)) := r'] = h @ [a, b, r']"
  by (simp add: list_update_append)

lemma cell_if: "(if c then h @ [a, b, x] else h @ [a, b, y]) = h @ [a, b, if c then x else y]"
  by simp

lemma cell_case:
  "(case s of Inl e \<Rightarrow> h @ [a, b, x e] | Inr d \<Rightarrow> h @ [a, b, y d]) =
   h @ [a, b, case s of Inl e \<Rightarrow> x e | Inr d \<Rightarrow> y d]"
  by (cases s) simp_all

lemma cell_let: "(let ns = t in h @ [a, b, x ns]) = h @ [a, b, let ns = t in x ns]"
  by (simp add: Let_def)

lemma Let_cell: "Let (h @ [a, b, r]) F = F (h @ [a, b, r])"
  by (simp add: Let_def)

text \<open>The three cells of a call: the parameter, the copy and \<open>ret\<close>.\<close>

lemma alloc3:
  "(let (config, h1) = alloc (h ! arg) h;
        (out, h2) = DeepCopy config h1;
        (ret, h3) = alloc (h2 ! out) h2
    in f ret h3) = f (Suc (Suc (length h))) (h @ [h ! arg, h ! arg, h ! arg])"
  by (simp add: alloc_def DeepCopy_def nth_append)

text \<open>
  A call returns what the function on values returns, and leaves a store that is the
  caller's store followed by the three cells of the call.
\<close>

lemma LeaderElectionSNOConfig_call_eq:
  "LeaderElectionSNOConfig_call h arg =
    (LeaderElectionSNOConfig (h ! arg),
     h @ [h ! arg, h ! arg, LeaderElectionSNOConfig (h ! arg)])"
  unfolding LeaderElectionSNOConfig_call_def alloc3
  by (simp only: cell_read cell_write Let_cell)
    (simp add: LeaderElectionSNOConfig_def)

lemma LeaderElectionDefaulting_call_eq:
  "LeaderElectionDefaulting_call w h arg dns dn =
    (LeaderElectionDefaulting w (h ! arg) dns dn,
     h @ [h ! arg, h ! arg, LeaderElectionDefaulting w (h ! arg) dns dn])"
  unfolding LeaderElectionDefaulting_call_def alloc3
  by (simp only: cell_read cell_write cell_if cell_case cell_let Let_cell)
    (simp add: LeaderElectionDefaulting_def Let_def split: sum.splits)

text \<open>
  C8. A call of either defaulting function, on the caller's cell \<open>arg\<close> of the store
  \<open>h\<close>, leaves every cell of \<open>h\<close> as it was: the store after the call starts with \<open>h\<close>.
  The value returned is the one of the function on values, and it was built in a cell
  of its own, the third one added by the call.
\<close>

theorem C8_caller_value_unchanged:
  "(case LeaderElectionDefaulting_call w h arg dns dn of
      (r, h') \<Rightarrow>
        take (length h) h' = h \<and> length h' = length h + 3 \<and> h' ! (length h + 2) = r \<and>
        r = LeaderElectionDefaulting w (h ! arg) dns dn) \<and>
   (case LeaderElectionSNOConfig_call h arg of
      (r, h') \<Rightarrow>
        take (length h) h' = h \<and> length h' = length h + 3 \<and> h' ! (length h + 2) = r \<and>
        r = LeaderElectionSNOConfig (h ! arg))"
  by (simp add: LeaderElectionDefaulting_call_eq LeaderElectionSNOConfig_call_eq cell_read)

theorem C8_caller_value_unchanged_witness:
  "take (length [tunedConfig, unsetConfig])
     (snd (LeaderElectionDefaulting_call podWorld [tunedConfig, unsetConfig] 1 [] [])) =
     [tunedConfig, unsetConfig] \<and>
   fst (LeaderElectionDefaulting_call podWorld [tunedConfig, unsetConfig] 1 [] []) =
     LeaderElectionDefaulting podWorld unsetConfig [] [] \<and>
   take (length [tunedConfig, unsetConfig]) (snd (LeaderElectionSNOConfig_call [tunedConfig, unsetConfig] 0)) =
     [tunedConfig, unsetConfig] \<and>
   fst (LeaderElectionSNOConfig_call [tunedConfig, unsetConfig] 0) =
     LeaderElectionSNOConfig tunedConfig"
  using
    C8_caller_value_unchanged
      [where w = podWorld and h = "[tunedConfig, unsetConfig]" and arg = 1 and dns = "[]"
        and dn = "[]"]
    C8_caller_value_unchanged
      [where w = podWorld and h = "[tunedConfig, unsetConfig]" and arg = 0 and dns = "[]"
        and dn = "[]"]
  by (simp add: case_prod_unfold)

end
